theory Spec2Isabelle
  imports Main "HOL-Library.Word" "HOL-Library.AList" "HOL-Library.Multiset"
begin

section \<open>The reactive cells of coregx/signals\<close>

text \<open>
  The library keeps three kinds of objects on the Go heap: Reactive Cells
  (\<^verbatim>\<open>signal[T]\<close>, options.go), Derived Cells (\<^verbatim>\<open>computed[T]\<close>, computed.go) and
  Effects (\<^verbatim>\<open>effect\<close>, effect.go), glued by the dependency tracker of internal.go.
  The model is a sequential one: a store of cells addressed by numbers, passed through
  every operation.  A lock is held for the whole of a critical section and released at
  its end, so in a sequential run it is invisible and is left out, as are the two
  metric counters of a Reactive Cell, which are only ever incremented.

  Go closures stored in the heap are represented as follows.
  \<^item> A function supplied by the user of the library acts on a world \<open>'u\<close> that stands
    for everything outside the cells (the variables its closure captured, logs, counters).
    It either returns (\<open>Inr\<close>) or panics with a payload (\<open>Inl\<close>), in both cases
    leaving a world behind.  A compute function and an Effect body read the current values
    of the Reactive Cells through an environment.  User functions do not call back into the
    cells they are invoked from.
  \<^item> The closures the library itself creates (\<^verbatim>\<open>func(_ T) { onChange() }\<close> in
    trackDependencyHelper, the Unsubscribe closures of Subscribe) are first-order data
    naming the object they captured.
  The declared dependencies of a Derived Cell or an Effect are Reactive Cells (or values
  that are no cell at all); chains of Derived Cells are not part of the model.
\<close>

type_synonym pval = string
type_synonym addr = nat
type_synonym sid = "64 word"
type_synonym 'v env = "addr \<Rightarrow> 'v"

type_synonym ('v, 'u) subscriber = "'v \<Rightarrow> 'u \<Rightarrow> pval \<times> 'u + 'u"
type_synonym 'u thunk = "'u \<Rightarrow> pval \<times> 'u + 'u"
type_synonym 'u handler = "pval \<Rightarrow> 'u \<Rightarrow> 'u"
type_synonym ('v, 'u) body = "'v env \<Rightarrow> 'u \<Rightarrow> pval \<times> 'u + 'u thunk option \<times> 'u"
type_synonym 'v computeFn = "'v env \<Rightarrow> pval + 'v"

text \<open>\<^verbatim>\<open>onChange\<close> is the method value handed to the tracker: \<^verbatim>\<open>c.markDirty\<close> or \<^verbatim>\<open>e.run\<close>.\<close>

datatype onChange = MarkDirty addr | Run addr

text \<open>A \<^verbatim>\<open>func(T)\<close> in a Reactive Cell's subscriber map.\<close>

datatype ('v, 'u) callback = UserFn "('v, 'u) subscriber" | Tracker onChange

text \<open>
  An \<^verbatim>\<open>Unsubscribe\<close>: the closure returned by \<^verbatim>\<open>signal.Subscribe\<close> (cell, id and
  \<^verbatim>\<open>done\<close> channel captured), by \<^verbatim>\<open>computed.Subscribe\<close>, the literal \<^verbatim>\<open>func() {}\<close>, or one
  handed back by a value foreign to the library.
\<close>

datatype 'u unsub =
    UnsubSignal addr sid nat
  | UnsubComputed addr sid nat
  | UnsubNoop
  | UnsubForeign "'u thunk"

record ('v, 'u) signal =
  s_value :: 'v
  s_equal :: "('v \<Rightarrow> 'v \<Rightarrow> bool) option"
  s_subscribers :: "(sid \<times> ('v, 'u) callback) list"
  s_nextID :: sid
  s_onPanic :: "'u handler option"

record ('v, 'u) computed =
  c_compute :: "'v computeFn"
  c_cached :: 'v
  c_dirty :: bool
  c_unsubscribes :: "'u unsub list"
  c_subscribers :: "(sid \<times> ('v, 'u) subscriber) list"
  c_nextID :: sid
  c_onPanic :: "'u handler option"

record ('v, 'u) effect =
  e_fn :: "('v, 'u) body"
  e_cleanup :: "'u thunk option"
  e_unsubscribes :: "'u unsub list"
  e_stopped :: bool
  e_onPanic :: "'u handler option"

record ('v, 'u) options =
  opt_Equal :: "('v \<Rightarrow> 'v \<Rightarrow> bool) option"
  opt_OnPanic :: "'u handler option"

text \<open>
  The store.  \<open>chans\<close> holds, for every \<^verbatim>\<open>done\<close> channel made so far, whether it has been
  closed; \<open>stderr\<close> is what the default panic handler printed with \<^verbatim>\<open>log.Printf\<close>;
  \<open>mapOrder\<close> is the order in which the Go runtime walks a map with the given keys, which
  the language leaves unspecified.
\<close>

record ('v, 'u) heap =
  sigs :: "addr \<Rightarrow> ('v, 'u) signal"
  comps :: "addr \<Rightarrow> ('v, 'u) computed"
  effs :: "addr \<Rightarrow> ('v, 'u) effect"
  chans :: "nat \<Rightarrow> bool"
  nsig :: nat
  ncomp :: nat
  neff :: nat
  nchan :: nat
  world :: 'u
  stderr :: "(string \<times> pval) list"
  mapOrder :: "sid list \<Rightarrow> sid list"

definition envOf :: "('v, 'u) heap \<Rightarrow> 'v env" where
  "envOf h = (\<lambda>a. s_value (sigs h a))"

text \<open>\<^verbatim>\<open>for _, fn := range m\<close>: the values of a Go map, in the runtime's order.\<close>

definition rangeValues :: "('v, 'u) heap \<Rightarrow> (sid \<times> 'a) list \<Rightarrow> 'a list" where
  "rangeValues h m = List.map_filter (map_of m) (mapOrder h (map fst m))"


subsection \<open>Fault isolation\<close>

text \<open>
  Every call site of a user function has the shape
  \<^verbatim>\<open>func() { defer func() { if r := recover(); r != nil { ... } }(); f() }()\<close>:
  the handler \<^verbatim>\<open>onPanic\<close> if there is one, else a line on the log.
\<close>

definition report :: "'u handler option \<Rightarrow> string \<Rightarrow> pval \<Rightarrow> ('v, 'u) heap \<Rightarrow> ('v, 'u) heap" where
  "report onp msg r h =
     (case onp of
        Some onPanic \<Rightarrow> h\<lparr>world := onPanic r (world h)\<rparr>
      | None \<Rightarrow> h\<lparr>stderr := stderr h @ [(msg, r)]\<rparr>)"

definition recovering :: "'u handler option \<Rightarrow> string \<Rightarrow> 'u thunk \<Rightarrow> ('v, 'u) heap \<Rightarrow> ('v, 'u) heap" where
  "recovering onp msg f h =
     (case f (world h) of
        Inr u \<Rightarrow> h\<lparr>world := u\<rparr>
      | Inl (r, u) \<Rightarrow> report onp msg r (h\<lparr>world := u\<rparr>))"

subsection \<open>Derived Cell: computed.go\<close>

definition computed_Get :: "addr \<Rightarrow> ('v, 'u) heap \<Rightarrow> 'v \<times> ('v, 'u) heap" where
  "computed_Get c h =
     (if \<not> c_dirty (comps h c) then (c_cached (comps h c), h)
      else
        let h1 = (case c_compute (comps h c) (envOf h) of
                    Inr v \<Rightarrow> h\<lparr>comps := (comps h)(c := (comps h c)\<lparr>c_cached := v\<rparr>)\<rparr>
                  | Inl r \<Rightarrow> report (c_onPanic (comps h c)) ''signals: panic in computed function'' r h);
            h2 = h1\<lparr>comps := (comps h1)(c := (comps h1 c)\<lparr>c_dirty := False\<rparr>)\<rparr>
        in (c_cached (comps h2 c), h2))"

fun computed_notifyLoop ::
  "'u handler option \<Rightarrow> ('v, 'u) subscriber list \<Rightarrow> 'v \<Rightarrow> ('v, 'u) heap \<Rightarrow> ('v, 'u) heap" where
  "computed_notifyLoop onp [] v h = h"
| "computed_notifyLoop onp (fn # callbacks) v h =
     computed_notifyLoop onp callbacks v
       (recovering onp ''signals: panic in computed subscriber'' (fn v) h)"

definition computed_notifySubscribers :: "addr \<Rightarrow> 'v \<Rightarrow> ('v, 'u) heap \<Rightarrow> ('v, 'u) heap" where
  "computed_notifySubscribers c v h =
     (let callbacks = rangeValues h (c_subscribers (comps h c))
      in computed_notifyLoop (c_onPanic (comps h c)) callbacks v h)"

definition computed_markDirty :: "addr \<Rightarrow> ('v, 'u) heap \<Rightarrow> ('v, 'u) heap" where
  "computed_markDirty c h =
     (let h1 = h\<lparr>comps := (comps h)(c := (comps h c)\<lparr>c_dirty := True\<rparr>)\<rparr>;
          (newValue, h2) = computed_Get c h1
      in computed_notifySubscribers c newValue h2)"

subsection \<open>Effect: the execution cycle of effect.go\<close>

definition effect_run :: "addr \<Rightarrow> ('v, 'u) heap \<Rightarrow> ('v, 'u) heap" where
  "effect_run e h =
     (if e_stopped (effs h e) then h
      else
        let h1 = (case e_cleanup (effs h e) of
                    None \<Rightarrow> h
                  | Some oldCleanup \<Rightarrow>
                      recovering (e_onPanic (effs h e)) ''signals: panic in effect cleanup'' oldCleanup
                        (h\<lparr>effs := (effs h)(e := (effs h e)\<lparr>e_cleanup := None\<rparr>)\<rparr>));
            (newCleanup, h2) =
                 (case e_fn (effs h1 e) (envOf h1) (world h1) of
                    Inr (cl, u) \<Rightarrow> (cl, h1\<lparr>world := u\<rparr>)
                  | Inl (r, u) \<Rightarrow>
                      (None, report (e_onPanic (effs h1 e)) ''signals: panic in effect function'' r
                               (h1\<lparr>world := u\<rparr>)))
        in h2\<lparr>effs := (effs h2)(e := (effs h2 e)\<lparr>e_cleanup := newCleanup\<rparr>)\<rparr>)"

subsection \<open>Reactive Cell: options.go\<close>

definition NewWithOptions ::
  "'v \<Rightarrow> ('v, 'u) options \<Rightarrow> ('v, 'u) heap \<Rightarrow> addr \<times> ('v, 'u) heap" where
  "NewWithOptions initial opts h =
     (nsig h,
      h\<lparr>sigs := (sigs h)(nsig h :=
            \<lparr>s_value = initial, s_equal = opt_Equal opts, s_subscribers = [],
             s_nextID = 0, s_onPanic = opt_OnPanic opts\<rparr>),
        nsig := nsig h + 1\<rparr>)"

definition New :: "'v \<Rightarrow> ('v, 'u) heap \<Rightarrow> addr \<times> ('v, 'u) heap" where
  "New initial h = NewWithOptions initial \<lparr>opt_Equal = None, opt_OnPanic = None\<rparr> h"


text \<open>One iteration of the loop of \<^verbatim>\<open>notifySubscribers\<close>: the callback under \<^verbatim>\<open>recover\<close>.\<close>

definition invoke :: "'u handler option \<Rightarrow> ('v, 'u) callback \<Rightarrow> 'v \<Rightarrow> ('v, 'u) heap \<Rightarrow> ('v, 'u) heap" where
  "invoke onp fn v h =
     (case fn of
        UserFn f \<Rightarrow> recovering onp ''signals: panic in subscriber'' (f v) h
      | Tracker (MarkDirty c) \<Rightarrow> computed_markDirty c h
      | Tracker (Run e) \<Rightarrow> effect_run e h)"

fun notifyLoop ::
  "'u handler option \<Rightarrow> ('v, 'u) callback list \<Rightarrow> 'v \<Rightarrow> ('v, 'u) heap \<Rightarrow> ('v, 'u) heap" where
  "notifyLoop onp [] v h = h"
| "notifyLoop onp (fn # callbacks) v h = notifyLoop onp callbacks v (invoke onp fn v h)"

definition signal_notifySubscribers ::
  "addr \<Rightarrow> ('v, 'u) callback list \<Rightarrow> 'v \<Rightarrow> ('v, 'u) heap \<Rightarrow> ('v, 'u) heap" where
  "signal_notifySubscribers s callbacks v h = notifyLoop (s_onPanic (sigs h s)) callbacks v h"

definition signal_Set :: "addr \<Rightarrow> 'v \<Rightarrow> ('v, 'u) heap \<Rightarrow> ('v, 'u) heap" where
  "signal_Set s newValue h =
     (if (case s_equal (sigs h s) of None \<Rightarrow> False | Some eq \<Rightarrow> eq (s_value (sigs h s)) newValue)
      then h
      else
        let h1 = h\<lparr>sigs := (sigs h)(s := (sigs h s)\<lparr>s_value := newValue\<rparr>)\<rparr>;
            callbacks = rangeValues h1 (s_subscribers (sigs h1 s))
        in signal_notifySubscribers s callbacks newValue h1)"


text \<open>
  \<^verbatim>\<open>Subscribe(ctx, fn)\<close>.  The context only feeds the watcher goroutine; the branch
  that goroutine takes when \<^verbatim>\<open>ctx.Done()\<close> becomes ready is \<open>signal_ctxDone\<close> below, and
  its other branch (the channel \<^verbatim>\<open>done\<close> was closed by the manual unsubscribe) does
  nothing.  \<^verbatim>\<open>SubscribeForever\<close> passes \<^verbatim>\<open>context.Background()\<close>, which is never done.
\<close>

definition signal_Subscribe ::
  "addr \<Rightarrow> ('v, 'u) callback \<Rightarrow> ('v, 'u) heap \<Rightarrow> 'u unsub \<times> ('v, 'u) heap" where
  "signal_Subscribe s fn h =
     (let ident = s_nextID (sigs h s);
          h1 = h\<lparr>sigs := (sigs h)(s := (sigs h s)
                  \<lparr>s_subscribers := AList.update ident fn (s_subscribers (sigs h s)),
                   s_nextID := ident + 1\<rparr>)\<rparr>;
          done_ch = nchan h1
      in (UnsubSignal s ident done_ch,
          h1\<lparr>chans := (chans h1)(done_ch := False), nchan := done_ch + 1\<rparr>))"

definition signal_SubscribeForever ::
  "addr \<Rightarrow> ('v, 'u) callback \<Rightarrow> ('v, 'u) heap \<Rightarrow> 'u unsub \<times> ('v, 'u) heap" where
  "signal_SubscribeForever s fn h = signal_Subscribe s fn h"

definition computed_Subscribe ::
  "addr \<Rightarrow> ('v, 'u) subscriber \<Rightarrow> ('v, 'u) heap \<Rightarrow> 'u unsub \<times> ('v, 'u) heap" where
  "computed_Subscribe c fn h =
     (let ident = c_nextID (comps h c);
          h1 = h\<lparr>comps := (comps h)(c := (comps h c)
                  \<lparr>c_subscribers := AList.update ident fn (c_subscribers (comps h c)),
                   c_nextID := ident + 1\<rparr>)\<rparr>;
          done_ch = nchan h1
      in (UnsubComputed c ident done_ch,
          h1\<lparr>chans := (chans h1)(done_ch := False), nchan := done_ch + 1\<rparr>))"

definition computed_SubscribeForever ::
  "addr \<Rightarrow> ('v, 'u) subscriber \<Rightarrow> ('v, 'u) heap \<Rightarrow> 'u unsub \<times> ('v, 'u) heap" where
  "computed_SubscribeForever c fn h = computed_Subscribe c fn h"

text \<open>\<^verbatim>\<open>close(done)\<close>: closing a closed channel is a run-time panic.\<close>

definition close_chan :: "nat \<Rightarrow> ('v, 'u) heap \<Rightarrow> pval + ('v, 'u) heap" where
  "close_chan d h =
     (if chans h d then Inl ''close of closed channel''
      else Inr (h\<lparr>chans := (chans h)(d := True)\<rparr>))"

definition signal_delete :: "addr \<Rightarrow> sid \<Rightarrow> ('v, 'u) heap \<Rightarrow> ('v, 'u) heap" where
  "signal_delete s ident h =
     h\<lparr>sigs := (sigs h)(s := (sigs h s)\<lparr>s_subscribers := AList.delete ident (s_subscribers (sigs h s))\<rparr>)\<rparr>"

definition computed_delete :: "addr \<Rightarrow> sid \<Rightarrow> ('v, 'u) heap \<Rightarrow> ('v, 'u) heap" where
  "computed_delete c ident h =
     h\<lparr>comps := (comps h)(c := (comps h c)\<lparr>c_subscribers := AList.delete ident (c_subscribers (comps h c))\<rparr>)\<rparr>"

text \<open>
  Calling an \<^verbatim>\<open>Unsubscribe\<close>.  For the closure of Subscribe:
  \<^verbatim>\<open>delete(s.subscribers, id); select { case <-done: default: close(done) }\<close>.
  A panic that leaves the library unwinds into the caller, and the model does not follow
  the store any further (\<open>Inl\<close>).
\<close>

definition call_unsub :: "'u unsub \<Rightarrow> ('v, 'u) heap \<Rightarrow> pval + ('v, 'u) heap" where
  "call_unsub unsub h =
     (case unsub of
        UnsubSignal s ident d \<Rightarrow>
          (let h1 = signal_delete s ident h in if chans h1 d then Inr h1 else close_chan d h1)
      | UnsubComputed c ident d \<Rightarrow>
          (let h1 = computed_delete c ident h in if chans h1 d then Inr h1 else close_chan d h1)
      | UnsubNoop \<Rightarrow> Inr h
      | UnsubForeign f \<Rightarrow>
          (case f (world h) of Inl (r, u) \<Rightarrow> Inl r | Inr u \<Rightarrow> Inr (h\<lparr>world := u\<rparr>)))"

text \<open>The \<^verbatim>\<open>case <-ctx.Done()\<close> branch of the watcher goroutine of Subscribe.\<close>

definition signal_ctxDone :: "addr \<Rightarrow> sid \<Rightarrow> nat \<Rightarrow> ('v, 'u) heap \<Rightarrow> pval + ('v, 'u) heap" where
  "signal_ctxDone s ident d h = close_chan d (signal_delete s ident h)"

definition computed_ctxDone :: "addr \<Rightarrow> sid \<Rightarrow> nat \<Rightarrow> ('v, 'u) heap \<Rightarrow> pval + ('v, 'u) heap" where
  "computed_ctxDone c ident d h = close_chan d (computed_delete c ident h)"

text \<open>\<^verbatim>\<open>for _, unsub := range unsubscribes { unsub() }\<close> over a slice.\<close>

fun call_unsubs :: "'u unsub list \<Rightarrow> ('v, 'u) heap \<Rightarrow> pval + ('v, 'u) heap" where
  "call_unsubs [] h = Inr h"
| "call_unsubs (unsub # rest) h =
     (case call_unsub unsub h of Inl r \<Rightarrow> Inl r | Inr h1 \<Rightarrow> call_unsubs rest h1)"

subsection \<open>Dependency tracker: internal.go\<close>

text \<open>
  What \<^verbatim>\<open>dep any\<close> can hold.  \<open>CellDep T s\<close> is a \<^verbatim>\<open>ReadonlySignal[T]\<close> (the cell itself or
  its \<^verbatim>\<open>AsReadonly\<close> wrapper, which delegates) for the Reactive Cell at \<open>s\<close>; the element
  type decides which of the three paths subscribes.  \<open>NilDep\<close> is the nil interface.
  \<open>ForeignDep\<close> is any other value, described by what reflection finds: its method
  named \<^verbatim>\<open>SubscribeForever\<close>, if it has one, with the number of parameters and results,
  whether the first parameter is of a function type, and what a call does: it panics, or
  returns a result that is an \<^verbatim>\<open>Unsubscribe\<close> (\<open>Some\<close>) or something else (\<open>None\<close>).
  \<^verbatim>\<open>reflect.MakeFunc\<close> panics when the type it is given is not a function type.
\<close>

datatype vtype = TAny | TInt | TString | TBool | TFloat64 | TInt64 | TOther

record 'u goMethod =
  m_numIn :: nat
  m_numOut :: nat
  m_in0Func :: bool
  m_call :: "'u \<Rightarrow> pval \<times> 'u + 'u thunk option \<times> 'u"

datatype 'u dep = NilDep | CellDep vtype addr | ForeignDep "'u goMethod option"

definition subscribeAnyType ::
  "'u dep \<Rightarrow> onChange \<Rightarrow> ('v, 'u) heap \<Rightarrow> pval + 'u unsub \<times> ('v, 'u) heap" where
  "subscribeAnyType dep onChange h =
     (case dep of
        NilDep \<Rightarrow> Inr (UnsubNoop, h)
      | ForeignDep None \<Rightarrow> Inr (UnsubNoop, h)
      | ForeignDep (Some m) \<Rightarrow>
          if m_numIn m \<noteq> 1 \<or> m_numOut m \<noteq> 1 then Inr (UnsubNoop, h)
          else if \<not> m_in0Func m then Inl ''reflect: call of MakeFunc with non-Func type''
          else (case m_call m (world h) of
                  Inl (r, u) \<Rightarrow> Inl r
                | Inr (Some unsub, u) \<Rightarrow> Inr (UnsubForeign unsub, h\<lparr>world := u\<rparr>)
                | Inr (None, u) \<Rightarrow> Inr (UnsubNoop, h\<lparr>world := u\<rparr>))
      | CellDep T s \<Rightarrow> Inr (signal_SubscribeForever s (Tracker onChange) h))"

definition trackDependencyHelper ::
  "'u dep \<Rightarrow> onChange \<Rightarrow> ('v, 'u) heap \<Rightarrow> pval + 'u unsub \<times> ('v, 'u) heap" where
  "trackDependencyHelper dep onChange h =
     (case dep of
        CellDep T s \<Rightarrow>
          if T = TAny then Inr (signal_SubscribeForever s (Tracker onChange) h)
          else if T \<in> {TInt, TString, TBool, TFloat64, TInt64}
          then Inr (signal_SubscribeForever s (Tracker onChange) h)
          else subscribeAnyType dep onChange h
      | _ \<Rightarrow> subscribeAnyType dep onChange h)"

subsection \<open>Derived Cell: construction and teardown\<close>

definition computed_trackDependency ::
  "addr \<Rightarrow> 'u dep \<Rightarrow> ('v, 'u) heap \<Rightarrow> pval + ('v, 'u) heap" where
  "computed_trackDependency c dep h =
     (case trackDependencyHelper dep (MarkDirty c) h of
        Inl r \<Rightarrow> Inl r
      | Inr (unsub, h1) \<Rightarrow>
          Inr (h1\<lparr>comps := (comps h1)(c := (comps h1 c)
                 \<lparr>c_unsubscribes := c_unsubscribes (comps h1 c) @ [unsub]\<rparr>)\<rparr>))"

fun computed_trackAll :: "addr \<Rightarrow> 'u dep list \<Rightarrow> ('v, 'u) heap \<Rightarrow> pval + ('v, 'u) heap" where
  "computed_trackAll c [] h = Inr h"
| "computed_trackAll c (dep # deps) h =
     (case computed_trackDependency c dep h of
        Inl r \<Rightarrow> Inl r
      | Inr h1 \<Rightarrow> computed_trackAll c deps h1)"

text \<open>
  \<open>zero\<close> is the zero value of \<open>T\<close>, which Go leaves in the field \<^verbatim>\<open>cached\<close> of the fresh
  struct.  The option \<^verbatim>\<open>Equal\<close> is not read.
\<close>

definition ComputedWithOptions ::
  "'v \<Rightarrow> 'v computeFn \<Rightarrow> ('v, 'u) options \<Rightarrow> 'u dep list \<Rightarrow> ('v, 'u) heap
     \<Rightarrow> pval + addr \<times> ('v, 'u) heap" where
  "ComputedWithOptions zero compute opts deps h =
     (let c = ncomp h;
          h1 = h\<lparr>comps := (comps h)(c :=
                   \<lparr>c_compute = compute, c_cached = zero, c_dirty = True, c_unsubscribes = [],
                    c_subscribers = [], c_nextID = 0, c_onPanic = opt_OnPanic opts\<rparr>),
                 ncomp := c + 1\<rparr>
      in case computed_trackAll c deps h1 of
           Inl r \<Rightarrow> Inl r
         | Inr h2 \<Rightarrow> Inr (c, h2))"

definition Computed ::
  "'v \<Rightarrow> 'v computeFn \<Rightarrow> 'u dep list \<Rightarrow> ('v, 'u) heap \<Rightarrow> pval + addr \<times> ('v, 'u) heap" where
  "Computed zero compute deps h =
     ComputedWithOptions zero compute \<lparr>opt_Equal = None, opt_OnPanic = None\<rparr> deps h"

definition computed_Cleanup :: "addr \<Rightarrow> ('v, 'u) heap \<Rightarrow> pval + ('v, 'u) heap" where
  "computed_Cleanup c h =
     (case call_unsubs (c_unsubscribes (comps h c)) h of
        Inl r \<Rightarrow> Inl r
      | Inr h1 \<Rightarrow> Inr (h1\<lparr>comps := (comps h1)(c := (comps h1 c)\<lparr>c_unsubscribes := []\<rparr>)\<rparr>))"

subsection \<open>Effect: construction and Stop\<close>

definition effect_trackDependency ::
  "addr \<Rightarrow> 'u dep \<Rightarrow> ('v, 'u) heap \<Rightarrow> pval + ('v, 'u) heap" where
  "effect_trackDependency e dep h =
     (case trackDependencyHelper dep (Run e) h of
        Inl r \<Rightarrow> Inl r
      | Inr (unsub, h1) \<Rightarrow>
          Inr (h1\<lparr>effs := (effs h1)(e := (effs h1 e)
                 \<lparr>e_unsubscribes := e_unsubscribes (effs h1 e) @ [unsub]\<rparr>)\<rparr>))"

fun effect_trackAll :: "addr \<Rightarrow> 'u dep list \<Rightarrow> ('v, 'u) heap \<Rightarrow> pval + ('v, 'u) heap" where
  "effect_trackAll e [] h = Inr h"
| "effect_trackAll e (dep # deps) h =
     (case effect_trackDependency e dep h of
        Inl r \<Rightarrow> Inl r
      | Inr h1 \<Rightarrow> effect_trackAll e deps h1)"

definition EffectWithOptions ::
  "('v, 'u) body \<Rightarrow> 'u handler option \<Rightarrow> 'u dep list \<Rightarrow> ('v, 'u) heap
     \<Rightarrow> pval + addr \<times> ('v, 'u) heap" where
  "EffectWithOptions fn optsOnPanic deps h =
     (let e = neff h;
          h1 = h\<lparr>effs := (effs h)(e :=
                   \<lparr>e_fn = fn, e_cleanup = None, e_unsubscribes = [], e_stopped = False,
                    e_onPanic = optsOnPanic\<rparr>),
                 neff := e + 1\<rparr>
      in case effect_trackAll e deps h1 of
           Inl r \<Rightarrow> Inl r
         | Inr h2 \<Rightarrow> Inr (e, effect_run e h2))"

definition EffectWithCleanup ::
  "('v, 'u) body \<Rightarrow> 'u dep list \<Rightarrow> ('v, 'u) heap \<Rightarrow> pval + addr \<times> ('v, 'u) heap" where
  "EffectWithCleanup fn deps h = EffectWithOptions fn None deps h"



section \<open>Auxiliary notions and the programs used as examples\<close>

text \<open>
  What an operation leaves alone when it only runs callbacks: the Reactive Cells, the
  channels, and of a Derived Cell or an Effect everything but the cache with its dirty
  flag and the stored cleanup.  Only the world, the log, caches and cleanups move.
\<close>

definition sameCells :: "('v, 'u) heap \<Rightarrow> ('v, 'u) heap \<Rightarrow> bool" where
  "sameCells h h' =
     (sigs h' = sigs h \<and> chans h' = chans h \<and> mapOrder h' = mapOrder h \<and>
      nsig h' = nsig h \<and> ncomp h' = ncomp h \<and> neff h' = neff h \<and> nchan h' = nchan h \<and>
      (\<forall>c. c_compute (comps h' c) = c_compute (comps h c) \<and>
           c_unsubscribes (comps h' c) = c_unsubscribes (comps h c) \<and>
           c_subscribers (comps h' c) = c_subscribers (comps h c) \<and>
           c_nextID (comps h' c) = c_nextID (comps h c) \<and>
           c_onPanic (comps h' c) = c_onPanic (comps h c)) \<and>
      (\<forall>e. e_fn (effs h' e) = e_fn (effs h e) \<and>
           e_unsubscribes (effs h' e) = e_unsubscribes (effs h e) \<and>
           e_stopped (effs h' e) = e_stopped (effs h e) \<and>
           e_onPanic (effs h' e) = e_onPanic (effs h e)))"

text \<open>
  The store of a program that has not made any cell yet.  Cells that were never
  allocated hold \<open>zero\<close>; the runtime walks maps in the order of their keys as listed.
\<close>

definition freshHeap :: "'v \<Rightarrow> 'u \<Rightarrow> ('v, 'u) heap" where
  "freshHeap zero u =
     \<lparr>sigs = (\<lambda>_. \<lparr>s_value = zero, s_equal = None, s_subscribers = [], s_nextID = 0,
                    s_onPanic = None\<rparr>),
      comps = (\<lambda>_. \<lparr>c_compute = (\<lambda>_. Inr zero), c_cached = zero, c_dirty = False,
                     c_unsubscribes = [], c_subscribers = [], c_nextID = 0, c_onPanic = None\<rparr>),
      effs = (\<lambda>_. \<lparr>e_fn = (\<lambda>_ u. Inr (None, u)), e_cleanup = None, e_unsubscribes = [],
                    e_stopped = False, e_onPanic = None\<rparr>),
      chans = (\<lambda>_. False), nsig = 0, ncomp = 0, neff = 0, nchan = 0,
      world = u, stderr = [], mapOrder = (\<lambda>ks. ks)\<rparr>"

text \<open>
  \<^verbatim>\<open>count := New(5); comp := ComputedWithOptions(f, Options{OnPanic: g}, count)\<close> where \<^verbatim>\<open>f\<close>
  panics when \<^verbatim>\<open>count\<close> is 5 and \<^verbatim>\<open>g\<close> counts its calls in the world.
\<close>

definition faultyComputed :: "(int, nat) heap" where
  "faultyComputed =
     (case New 5 (freshHeap 0 0) of (cnt, h1) \<Rightarrow>
        (case ComputedWithOptions 0
                (\<lambda>env. if env cnt = 5 then Inl ''compute panic'' else Inr (env cnt * 2))
                \<lparr>opt_Equal = None, opt_OnPanic = Some (\<lambda>r n. n + 1)\<rparr>
                [CellDep TInt cnt] h1 of
           Inr (c, h2) \<Rightarrow> h2
         | Inl r \<Rightarrow> h1))"







text \<open>A subscriber that appends the value it is given to a log, and one that panics.\<close>

definition logValue :: "(int, int list) subscriber" where
  "logValue v u = Inr (u @ [v])"





text \<open>\<^verbatim>\<open>a := New(0); c := Computed(func() int { return a.Get() * 2 }, a); c.SubscribeForever(logValue)\<close>.\<close>

definition loggedComputed :: "(int, int list) heap" where
  "loggedComputed =
     (case New 0 (freshHeap 0 []) of (a, h1) \<Rightarrow>
        (case Computed 0 (\<lambda>env. Inr (env a * 2)) [CellDep TInt a] h1 of
           Inr (c, h2) \<Rightarrow> snd (computed_SubscribeForever c logValue h2)
         | Inl r \<Rightarrow> h1))"

text \<open>
  What subscribing and unsubscribing leave alone: everything but the subscriber maps of
  Reactive Cells with their id counters, the lists of Unsubscribe closures, and the channels.
\<close>

definition sameValues :: "('v, 'u) heap \<Rightarrow> ('v, 'u) heap \<Rightarrow> bool" where
  "sameValues h h' =
     (world h' = world h \<and> stderr h' = stderr h \<and> mapOrder h' = mapOrder h \<and>
      nsig h' = nsig h \<and> ncomp h' = ncomp h \<and> neff h' = neff h \<and>
      (\<forall>s. s_value (sigs h' s) = s_value (sigs h s) \<and> s_equal (sigs h' s) = s_equal (sigs h s) \<and>
           s_onPanic (sigs h' s) = s_onPanic (sigs h s)) \<and>
      (\<forall>c. c_compute (comps h' c) = c_compute (comps h c) \<and> c_cached (comps h' c) = c_cached (comps h c) \<and>
           c_dirty (comps h' c) = c_dirty (comps h c) \<and>
           c_subscribers (comps h' c) = c_subscribers (comps h c) \<and>
           c_nextID (comps h' c) = c_nextID (comps h c) \<and> c_onPanic (comps h' c) = c_onPanic (comps h c)) \<and>
      (\<forall>e. e_fn (effs h' e) = e_fn (effs h e) \<and> e_cleanup (effs h' e) = e_cleanup (effs h e) \<and>
           e_stopped (effs h' e) = e_stopped (effs h e) \<and> e_onPanic (effs h' e) = e_onPanic (effs h e)))"




text \<open>The world a thunk leaves when it is run under \<^verbatim>\<open>recover\<close> with the handler \<open>onp\<close>.\<close>

definition afterThunk :: "'u handler option \<Rightarrow> 'u thunk \<Rightarrow> 'u \<Rightarrow> 'u" where
  "afterThunk onp f u =
     (case f u of
        Inr u' \<Rightarrow> u'
      | Inl (r, u') \<Rightarrow> (case onp of Some onPanic \<Rightarrow> onPanic r u' | None \<Rightarrow> u'))"

text \<open>
  The test \<^verbatim>\<open>TestEffect_CleanupOrder\<close>: the body appends \<^verbatim>\<open>effect-n\<close> to a list of events
  and returns a cleanup that appends \<^verbatim>\<open>cleanup-n\<close>, \<open>n\<close> being the value of the cell
  when the body ran; then \<^verbatim>\<open>Set(1)\<close> and \<^verbatim>\<open>Set(2)\<close>.
\<close>

datatype event = EffectEv int | CleanupEv int

definition loggingBody :: "addr \<Rightarrow> (int, event list) body" where
  "loggingBody a env u = Inr (Some (\<lambda>u'. Inr (u' @ [CleanupEv (env a)])), u @ [EffectEv (env a)])"

definition cleanupOrder :: "(int, event list) heap" where
  "cleanupOrder =
     (case New 0 (freshHeap 0 []) of (a, h1) \<Rightarrow>
        (case EffectWithCleanup (loggingBody a) [CellDep TInt a] h1 of
           Inr (e, h2) \<Rightarrow> signal_Set a 2 (signal_Set a 1 h2)
         | Inl r \<Rightarrow> h1))"













text \<open>
  What reflection finds on a value of a type declared as
  \<^verbatim>\<open>type T struct{}; func (T) SubscribeForever(n int) int { return n }\<close>:
  a method of that name with one parameter and one result, the parameter not a function.
\<close>

definition intMethod :: "'u goMethod" where
  "intMethod = \<lparr>m_numIn = 1, m_numOut = 1, m_in0Func = False, m_call = (\<lambda>u. Inr (None, u))\<rparr>"

text \<open>The three shapes for which the tracker returns \<^verbatim>\<open>func() {}\<close> before calling anything.\<close>

definition unsupported :: "'u dep \<Rightarrow> bool" where
  "unsupported dep =
     (case dep of
        NilDep \<Rightarrow> True
      | ForeignDep None \<Rightarrow> True
      | ForeignDep (Some m) \<Rightarrow> m_numIn m \<noteq> 1 \<or> m_numOut m \<noteq> 1
      | CellDep T s \<Rightarrow> False)"

section \<open>Derived Cell: a faulting recompute\<close>

text \<open>
  Claim C1, as the code has it.  \<^verbatim>\<open>Get\<close> on a dirty Derived Cell always leaves the
  cell clean, and a second \<^verbatim>\<open>Get\<close> right after it returns the same value and changes
  nothing.  When the compute function returned, the value is its result.  When it
  panicked, the value is the cached one from before, the cache is untouched, and the
  store differs from the one before only by the report of the panic (to \<^verbatim>\<open>onPanic\<close>, or
  on the log) and by the cleared flag: the faulting computation is not tried again
  by the next \<^verbatim>\<open>Get\<close>.
\<close>

theorem computed_Get_dirty:
  "c_dirty (comps h c) \<Longrightarrow>
   (case computed_Get c h of (v, h') \<Rightarrow>
      \<not> c_dirty (comps h' c) \<and> c_cached (comps h' c) = v \<and> computed_Get c h' = (v, h') \<and>
      (case c_compute (comps h c) (envOf h) of
         Inr x \<Rightarrow> v = x \<and> world h' = world h \<and> stderr h' = stderr h
       | Inl r \<Rightarrow>
           v = c_cached (comps h c) \<and>
           h' = (let h1 = report (c_onPanic (comps h c)) ''signals: panic in computed function'' r h
                 in h1\<lparr>comps := (comps h1)(c := (comps h1 c)\<lparr>c_dirty := False\<rparr>)\<rparr>)))"
  by (auto simp: computed_Get_def report_def Let_def split: option.splits sum.splits)

theorem computed_Get_dirty_witness:
  "c_dirty (comps faultyComputed 0) \<and>
   c_compute (comps faultyComputed 0) (envOf faultyComputed) = Inl ''compute panic'' \<and>
   (case computed_Get 0 faultyComputed of (v, h') \<Rightarrow>
      v = 0 \<and> \<not> c_dirty (comps h' 0) \<and> c_cached (comps h' 0) = 0 \<and> world h' = 1 \<and>
      computed_Get 0 h' = (v, h'))"
proof -
  have d: "c_dirty (comps faultyComputed 0)"
    by (simp add: faultyComputed_def New_def NewWithOptions_def freshHeap_def
        ComputedWithOptions_def computed_trackDependency_def trackDependencyHelper_def
        signal_SubscribeForever_def signal_Subscribe_def Let_def)
  have f: "c_compute (comps faultyComputed 0) (envOf faultyComputed) = Inl ''compute panic''"
    by (simp add: faultyComputed_def New_def NewWithOptions_def freshHeap_def
        ComputedWithOptions_def computed_trackDependency_def trackDependencyHelper_def
        signal_SubscribeForever_def signal_Subscribe_def Let_def envOf_def)
  have c: "c_cached (comps faultyComputed 0) = 0" "world faultyComputed = 0"
      "c_onPanic (comps faultyComputed 0) = Some (\<lambda>r n. n + 1)"
    by (simp_all add: faultyComputed_def New_def NewWithOptions_def freshHeap_def
        ComputedWithOptions_def computed_trackDependency_def trackDependencyHelper_def
        signal_SubscribeForever_def signal_Subscribe_def Let_def)
  show ?thesis
    using computed_Get_dirty [OF d, unfolded f] d f c
    by (auto simp: report_def Let_def split: prod.splits)
qed

text \<open>
  The claim as the specification words it fails on this cell: the flag was Dirty, the
  computation panicked, and the flag is Clean afterwards; the next \<^verbatim>\<open>Get\<close> does not run
  the computation again (the handler has been called once, not twice).
\<close>

theorem computed_Get_fault_clears_dirty:
  "c_dirty (comps faultyComputed 0) \<and>
   c_compute (comps faultyComputed 0) (envOf faultyComputed) = Inl ''compute panic'' \<and>
   c_dirty (comps (snd (computed_Get 0 faultyComputed)) 0) \<noteq> c_dirty (comps faultyComputed 0) \<and>
   world (snd (computed_Get 0 faultyComputed)) = 1 \<and>
   world (snd (computed_Get 0 (snd (computed_Get 0 faultyComputed)))) = 1"
  by (simp add: faultyComputed_def New_def NewWithOptions_def freshHeap_def
      ComputedWithOptions_def computed_trackDependency_def trackDependencyHelper_def
      signal_SubscribeForever_def signal_Subscribe_def Let_def envOf_def
      computed_Get_def report_def)

section \<open>What running callbacks leaves alone\<close>



lemma sameCells_report: "sameCells h (report onp msg r h)"
  by (simp add: sameCells_def report_def split: option.splits)








section \<open>Reactive Cell: one notification round\<close>



















section \<open>Reactive Cell: a subscriber that panics\<close>





section \<open>Reactive Cell: who is notified\<close>










section \<open>Unsubscribe\<close>












section \<open>Tracking dependencies that are Reactive Cells\<close>





lemma sameValues_signal_Subscribe: "sameValues h (snd (signal_Subscribe s fn h))"
  by (simp add: sameValues_def signal_Subscribe_def Let_def)

lemma signal_Subscribe_registry:
  "s_subscribers (sigs (snd (signal_Subscribe s fn h)) s') =
     (if s' = s then AList.update (s_nextID (sigs h s)) fn (s_subscribers (sigs h s))
      else s_subscribers (sigs h s'))"
  by (simp add: signal_Subscribe_def Let_def)

lemma signal_Subscribe_unsub:
  "fst (signal_Subscribe s fn h) = UnsubSignal s (s_nextID (sigs h s)) (nchan h)"
  by (simp add: signal_Subscribe_def Let_def)

lemma signal_Subscribe_others:
  "comps (snd (signal_Subscribe s fn h)) = comps h"
  "effs (snd (signal_Subscribe s fn h)) = effs h"
  by (simp_all add: signal_Subscribe_def Let_def)

lemma in_update_same: "fn \<in> snd ` set (AList.update k fn m)"
  by (induction m) (auto simp: image_iff)

lemma in_update_keep:
  "fn \<in> snd ` set m \<Longrightarrow> fn \<in> snd ` set (AList.update k fn m)"
  by (rule in_update_same)





section \<open>Effect: the execution cycle\<close>



lemma effect_run_cycle:
  assumes "\<not> e_stopped (effs h e)"
  shows "case e_fn (effs h e) (envOf h)
              (case e_cleanup (effs h e) of
                 None \<Rightarrow> world h
               | Some oldCleanup \<Rightarrow> afterThunk (e_onPanic (effs h e)) oldCleanup (world h)) of
           Inr (newCleanup, u) \<Rightarrow>
             world (effect_run e h) = u \<and> e_cleanup (effs (effect_run e h) e) = newCleanup
         | Inl (r, u) \<Rightarrow>
             world (effect_run e h) =
               (case e_onPanic (effs h e) of Some onPanic \<Rightarrow> onPanic r u | None \<Rightarrow> u) \<and>
             e_cleanup (effs (effect_run e h) e) = None"
  using assms
  by (auto simp: effect_run_def recovering_def report_def afterThunk_def Let_def envOf_def
      split: sum.splits prod.splits option.splits)

lemmas effect_scenario_defs = New_def NewWithOptions_def freshHeap_def EffectWithCleanup_def
  EffectWithOptions_def effect_trackDependency_def trackDependencyHelper_def
  signal_SubscribeForever_def signal_Subscribe_def effect_run_def signal_Set_def
  signal_notifySubscribers_def rangeValues_def invoke_def recovering_def envOf_def Let_def

lemma cleanupOrder_events:
  "world cleanupOrder = [EffectEv 0, CleanupEv 0, EffectEv 1, CleanupEv 1, EffectEv 2]"
  by (simp add: cleanupOrder_def loggingBody_def effect_scenario_defs)

text \<open>
  Claim C5.  One cycle of an Effect that is not stopped: the cleanup stored by the
  previous cycle (if there is one) is run first, under \<^verbatim>\<open>recover\<close>; the body is then run
  in the world the cleanup left, reading the current values of the cells; the cleanup the
  body returns is stored, or none when the body panicked, in which case the panic is handed
  to \<^verbatim>\<open>onPanic\<close>.  For the Effect with cleanup over the cell A and the mutations
  A: 0, 1, 2 the events are effect(0), cleanup(0), effect(1), cleanup(1), effect(2).
\<close>

theorem effect_cycle_order:
  "(\<not> e_stopped (effs h e) \<longrightarrow>
      (case e_fn (effs h e) (envOf h)
              (case e_cleanup (effs h e) of
                 None \<Rightarrow> world h
               | Some oldCleanup \<Rightarrow> afterThunk (e_onPanic (effs h e)) oldCleanup (world h)) of
           Inr (newCleanup, u) \<Rightarrow>
             world (effect_run e h) = u \<and> e_cleanup (effs (effect_run e h) e) = newCleanup
         | Inl (r, u) \<Rightarrow>
             world (effect_run e h) =
               (case e_onPanic (effs h e) of Some onPanic \<Rightarrow> onPanic r u | None \<Rightarrow> u) \<and>
             e_cleanup (effs (effect_run e h) e) = None)) \<and>
   world cleanupOrder = [EffectEv 0, CleanupEv 0, EffectEv 1, CleanupEv 1, EffectEv 2]"
  using effect_run_cycle [of h e] cleanupOrder_events by blast

theorem effect_cycle_order_witness:
  "\<not> e_stopped (effs cleanupOrder 0) \<and>
   world (effect_run 0 cleanupOrder) =
     [EffectEv 0, CleanupEv 0, EffectEv 1, CleanupEv 1, EffectEv 2, CleanupEv 2, EffectEv 2] \<and>
   (case e_cleanup (effs (effect_run 0 cleanupOrder) 0) of
      Some cl \<Rightarrow> cl [] = Inr [CleanupEv 2]
    | None \<Rightarrow> False)"
proof -
  have st: "\<not> e_stopped (effs cleanupOrder 0)"
    by (simp add: cleanupOrder_def loggingBody_def effect_scenario_defs)
  have fn: "e_fn (effs cleanupOrder 0) = loggingBody 0" "e_onPanic (effs cleanupOrder 0) = None"
      "envOf cleanupOrder 0 = 2"
    by (simp_all add: cleanupOrder_def loggingBody_def effect_scenario_defs)
  have cl: "e_cleanup (effs cleanupOrder 0) = Some (\<lambda>u'. Inr (u' @ [CleanupEv 2]))"
    by (simp add: cleanupOrder_def loggingBody_def effect_scenario_defs)
  from effect_cycle_order [of cleanupOrder 0] st show ?thesis
    by (simp add: fn cl cleanupOrder_events afterThunk_def loggingBody_def)
qed


section \<open>Effect: construction\<close>





section \<open>Effect: Stop\<close>






lemma sameCells_signal_Set: "sameCells (h\<lparr>sigs := (sigs h)(s := (sigs h s)\<lparr>s_value := v\<rparr>)\<rparr>) h' \<Longrightarrow>
    \<forall>e. e_stopped (effs h' e) = e_stopped (effs h e)"
  by (simp add: sameCells_def)











section \<open>Derived Cell: following the dependencies\<close>


























end
